theory Spec2Isabelle
  imports Main "HOL-Library.Sublist" "HOL-Library.AList" "HOL-Library.Multiset"
begin

chapter \<open>The program\<close>

section \<open>Common data: errors, decimal rendering, values\<close>

text \<open>
  A Go \<open>error\<close> is modelled by its message, the text \<open>err.Error()\<close> returns:
  the program compares and prints errors by that text only. \<open>fmt.Errorf("...: %w", err)\<close>
  is the concatenation of the format's text and the wrapped error's message.
  Fallible functions return \<open>error + 'a\<close> with \<open>Inl\<close> the error; a function that returns
  only an \<open>error\<close> returns \<open>error option\<close>, \<open>None\<close> standing for \<open>nil\<close>.
\<close>

type_synonym error = string

text \<open>The verb \<open>%d\<close> of \<open>fmt\<close>: an integer in decimal.\<close>

definition digit_char :: "nat \<Rightarrow> char" where
  "digit_char d = ''0123456789'' ! d"

fun nat_dec :: "nat \<Rightarrow> string" where
  "nat_dec n = (if n < 10 then [digit_char n] else nat_dec (n div 10) @ [digit_char (n mod 10)])"

declare nat_dec.simps [simp del]

definition int_dec :: "int \<Rightarrow> string" where
  "int_dec i = (if i < 0 then CHR ''-'' # nat_dec (nat (- i)) else nat_dec (nat i))"

text \<open>
  A cell of a row is a Go \<open>interface{}\<close>. The constructors are the dynamic types the
  program distinguishes in \<open>formatValue\<close>: \<open>nil\<close>, \<open>string\<close>, \<open>[]byte\<close>, the signed and
  unsigned integer kinds (the payload is the number), the floating-point kinds and \<open>bool\<close>;
  \<open>VOther\<close> is any other dynamic type. Floating-point numbers and the other types are
  opaque: the type parameters \<open>'f\<close> and \<open>'o\<close> stand for them, and their \<open>%v\<close> rendering is
  a parameter of the functions that print them.
\<close>

datatype ('f, 'o) gvalue =
    VNil
  | VString string
  | VBytes string
  | VInt int
  | VUint nat
  | VFloat 'f
  | VBool bool
  | VOther 'o

type_synonym ('f, 'o) row = "('f, 'o) gvalue list"


section \<open>Run configuration (go/config.go)\<close>



text \<open>\<open>strings.Join\<close>.\<close>

fun Join :: "string list \<Rightarrow> string \<Rightarrow> string" where
  "Join [] sep = []"
| "Join [x] sep = x"
| "Join (x # y # xs) sep = x @ sep @ Join (y # xs) sep"




section \<open>Format auto-detection (go/config.go)\<close>

text \<open>
  \<open>filepath.Ext\<close>: the suffix of the path that starts at the last dot of its last
  element (the separator is \<open>/\<close>); empty when that element has no dot. The scan runs
  from the end of the path, as the library's loop does.
\<close>

fun ext_scan :: "string \<Rightarrow> string \<Rightarrow> string" where
  "ext_scan [] acc = []"
| "ext_scan (c # cs) acc =
     (if c = CHR ''/'' then [] else if c = CHR ''.'' then c # acc else ext_scan cs (c # acc))"

definition Ext :: "string \<Rightarrow> string" where
  "Ext path = ext_scan (rev path) []"

text \<open>
  \<open>strings.ToLower\<close> on the ASCII letters; other bytes are kept. (On other letters the
  library maps code points; none of them becomes a letter of the extensions compared
  below, so the comparisons of \<open>detectFormat\<close> come out the same.)
\<close>

definition lower_char :: "char \<Rightarrow> char" where
  "lower_char c =
     (case map_of (zip ''ABCDEFGHIJKLMNOPQRSTUVWXYZ'' ''abcdefghijklmnopqrstuvwxyz'') c of
        Some l \<Rightarrow> l | None \<Rightarrow> c)"

definition ToLower :: "string \<Rightarrow> string" where
  "ToLower s = map lower_char s"

text \<open>
  The file system as \<open>detectFormat\<close> sees it: \<open>os.Open\<close> fails (\<open>Inl\<close>) or gives a file,
  whose first \<open>Read\<close> fails without a byte (\<open>Inr (Inl e)\<close>) or reads from the file's
  bytes (\<open>Inr (Inr content)\<close>). \<open>Read\<close> into the 512-byte buffer returns
  \<open>n = min 512 (length content)\<close> bytes, and \<open>io.EOF\<close> with \<open>n = 0\<close> on an empty file.
\<close>

type_synonym filesystem = "string \<Rightarrow> error + (error + string)"

definition detectFormat :: "filesystem \<Rightarrow> string \<Rightarrow> error + string" where
  "detectFormat fs filePath =
     (let ext = ToLower (Ext filePath) in
      if ext = ''.csv'' then Inr ''csv''
      else if ext = ''.tsv'' then Inr ''tsv''
      else if ext = ''.jsonl'' \<or> ext = ''.ndjson'' then Inr ''jsonl''
      else if ext = ''.xlsx'' then Inr ''xlsx''
      else if ext = ''.xls'' then
        Inl ''XLS format is not supported (legacy Excel format). Please convert to XLSX or CSV''
      else if ext = ''.json'' then
        Inl ''JSON arrays are not supported. Use JSONL (newline-delimited JSON) instead''
      else
        case fs filePath of
          Inl err \<Rightarrow> Inl err
        | Inr file \<Rightarrow>
            (case file of
               Inl err \<Rightarrow> Inl ''cannot read file to detect format''
             | Inr content \<Rightarrow>
                 let header = take 512 content; n = length header in
                 if n = 0 then Inl ''cannot read file to detect format''
                 else if n \<ge> 4 \<and> header ! 0 = CHR 0x50 \<and> header ! 1 = CHR 0x4B
                         \<and> header ! 2 = CHR 0x03 \<and> header ! 3 = CHR 0x04 then Inr ''xlsx''
                 else if n \<ge> 8 \<and> header ! 0 = CHR 0xD0 \<and> header ! 1 = CHR 0xCF
                         \<and> header ! 2 = CHR 0x11 \<and> header ! 3 = CHR 0xE0 then
                   Inl ''XLS format detected (legacy Excel format). Please convert to XLSX or CSV''
                 else Inr ''csv''))"


section \<open>Database connectors (go/db)\<close>

text \<open>
  The database behind \<open>*sql.DB\<close>: the statements sent to it so far, in order, each with
  its arguments, and the server's answer to a statement (\<open>None\<close>: it succeeds).
  \<open>ExecContext\<close> sends one statement.
\<close>

type_synonym ('f, 'o) statement = "string \<times> ('f, 'o) gvalue list"

record ('f, 'o) sql_DB =
  sent :: "('f, 'o) statement list"
  answer :: "('f, 'o) statement \<Rightarrow> error option"

definition ExecContext ::
  "('f, 'o) sql_DB \<Rightarrow> string \<Rightarrow> ('f, 'o) gvalue list \<Rightarrow> error option \<times> ('f, 'o) sql_DB" where
  "ExecContext db query args = (answer db (query, args), db\<lparr>sent := sent db @ [(query, args)]\<rparr>)"

text \<open>
  The loop over the rows of a batch: one parenthesised group of placeholders per row,
  the arguments appended row after row. PostgreSQL numbers its placeholders from the
  arguments collected so far; MySQL writes \<open>?\<close>.
\<close>

definition pg_placeholders :: "nat \<Rightarrow> nat \<Rightarrow> string list" where
  "pg_placeholders nargs ncols = map (\<lambda>j. CHR ''$'' # nat_dec (nargs + j + 1)) [0..<ncols]"

fun pg_values ::
  "string list \<Rightarrow> ('f, 'o) row list \<Rightarrow> string list \<times> ('f, 'o) gvalue list
     \<Rightarrow> string list \<times> ('f, 'o) gvalue list" where
  "pg_values columns [] (valuePlaceholders, args) = (valuePlaceholders, args)"
| "pg_values columns (row # rows) (valuePlaceholders, args) =
     pg_values columns rows
       (valuePlaceholders @
          [''('' @ Join (pg_placeholders (length args) (length columns)) '', '' @ '')''],
        args @ row)"

definition multiValueInsert ::
  "('f, 'o) sql_DB \<Rightarrow> string \<Rightarrow> string list \<Rightarrow> ('f, 'o) row list
     \<Rightarrow> error option \<times> ('f, 'o) sql_DB" where
  "multiValueInsert db table columns rows =
     (if length rows = 0 then (None, db)
      else
        let colList = Join columns '', '';
            (valuePlaceholders, args) = pg_values columns rows ([], []);
            query = ''INSERT INTO '' @ table @ '' ('' @ colList @ '') VALUES ''
                    @ Join valuePlaceholders '', ''
        in case ExecContext db query args of
             (Some err, db') \<Rightarrow> (Some (''batch insert failed: '' @ err), db')
           | (None, db') \<Rightarrow> (None, db'))"

definition PostgresConnector_BatchInsert ::
  "('f, 'o) sql_DB \<Rightarrow> string \<Rightarrow> string list \<Rightarrow> ('f, 'o) row list
     \<Rightarrow> error option \<times> ('f, 'o) sql_DB" where
  "PostgresConnector_BatchInsert db table columns rows =
     (if length rows = 0 then (None, db) else multiValueInsert db table columns rows)"

fun mysql_values ::
  "string list \<Rightarrow> ('f, 'o) row list \<Rightarrow> string list \<times> ('f, 'o) gvalue list
     \<Rightarrow> string list \<times> ('f, 'o) gvalue list" where
  "mysql_values columns [] (valuePlaceholders, args) = (valuePlaceholders, args)"
| "mysql_values columns (row # rows) (valuePlaceholders, args) =
     mysql_values columns rows
       (valuePlaceholders @ [''('' @ Join (map (\<lambda>c. ''?'') columns) '', '' @ '')''],
        args @ row)"

definition MySQLConnector_BatchInsert ::
  "('f, 'o) sql_DB \<Rightarrow> string \<Rightarrow> string list \<Rightarrow> ('f, 'o) row list
     \<Rightarrow> error option \<times> ('f, 'o) sql_DB" where
  "MySQLConnector_BatchInsert db table columns rows =
     (if length rows = 0 then (None, db)
      else
        let colList = Join columns '', '';
            (valuePlaceholders, args) = mysql_values columns rows ([], []);
            query = ''INSERT INTO '' @ table @ '' ('' @ colList @ '') VALUES ''
                    @ Join valuePlaceholders '', ''
        in case ExecContext db query args of
             (Some err, db') \<Rightarrow> (Some (''batch insert failed: '' @ err), db')
           | (None, db') \<Rightarrow> (None, db'))"

text \<open>
  The extensions \<open>detectFormat\<close> decides on without opening the file, and two file
  systems to run it on: one where every file is empty, one where every file starts with
  the ZIP local-file-header signature.
\<close>

definition known_extensions :: "string list" where
  "known_extensions = [''.csv'', ''.tsv'', ''.jsonl'', ''.ndjson'', ''.xlsx'', ''.xls'', ''.json'']"

definition empty_file_fs :: filesystem where
  "empty_file_fs p = Inr (Inr [])"

definition zip_file_fs :: filesystem where
  "zip_file_fs p = Inr (Inr [CHR 0x50, CHR 0x4B, CHR 0x03, CHR 0x04, CHR 0x14])"

section \<open>XLSX importer (go/importer/xlsx.go)\<close>

definition MaxXLSXSize :: int where
  "MaxXLSXSize = 100 * 1024 * 1024"

text \<open>
  The excelize library at its interface. A row iterator (\<open>*excelize.Rows\<close>) holds the
  rows still to come, each with the result its \<open>Columns\<close> call gives, the row \<open>Next\<close>
  moved to last, and the error that ended the iteration, if one did (\<open>Error\<close>). A workbook
  (\<open>*excelize.File\<close>) has its sheet list and, per sheet name, the result of \<open>Rows\<close>.
\<close>

record xlsx_Rows =
  rows_pending :: "(error + string list) list"
  rows_current :: "(error + string list) option"
  rows_err :: "error option"

definition Rows_Next :: "xlsx_Rows \<Rightarrow> bool \<times> xlsx_Rows" where
  "Rows_Next r =
     (case rows_pending r of
        [] \<Rightarrow> (False, r\<lparr>rows_current := None\<rparr>)
      | c # cs \<Rightarrow> (True, r\<lparr>rows_pending := cs, rows_current := Some c\<rparr>))"

definition Rows_Columns :: "xlsx_Rows \<Rightarrow> error + string list" where
  "Rows_Columns r = (case rows_current r of None \<Rightarrow> Inr [] | Some c \<Rightarrow> c)"

definition Rows_Error :: "xlsx_Rows \<Rightarrow> error option" where
  "Rows_Error r = rows_err r"

record excelize_File =
  sheetList :: "string list"
  sheetRows :: "string \<Rightarrow> error + xlsx_Rows"

text \<open>
  What \<open>Open\<close> does to the file system, in order: the importer's own state does not show
  whether the archive was opened and closed again.
\<close>

datatype fs_op = OpStat string | OpOpenFile string | OpRowsClose | OpFileClose

record XLSXImporter =
  x_filePath :: string
  x_file :: "excelize_File option"
  x_rows :: "xlsx_Rows option"
  x_columns :: "string list"

definition NewXLSXImporter :: "string \<Rightarrow> XLSXImporter" where
  "NewXLSXImporter filePath =
     \<lparr>x_filePath = filePath, x_file = None, x_rows = None, x_columns = []\<rparr>"

text \<open>
  \<open>stat\<close> is \<open>os.Stat\<close> followed by \<open>Size()\<close>, \<open>openFile\<close> is \<open>excelize.OpenFile\<close>.
\<close>

definition XLSXImporter_Open ::
  "(string \<Rightarrow> error + int) \<Rightarrow> (string \<Rightarrow> error + excelize_File) \<Rightarrow> XLSXImporter
     \<Rightarrow> (error + string list) \<times> XLSXImporter \<times> fs_op list" where
  "XLSXImporter_Open stat openFile x =
     (case stat (x_filePath x) of
        Inl err \<Rightarrow> (Inl (''failed to stat file: '' @ err), x, [OpStat (x_filePath x)])
      | Inr sz \<Rightarrow>
          if sz > MaxXLSXSize then
            (Inl (''XLSX file too large: '' @ int_dec sz @ '' bytes (max '' @ int_dec MaxXLSXSize
                  @ '' bytes). Please convert to CSV for large files''),
             x, [OpStat (x_filePath x)])
          else
            let ops = [OpStat (x_filePath x), OpOpenFile (x_filePath x)] in
            case openFile (x_filePath x) of
              Inl err \<Rightarrow> (Inl (''failed to open XLSX file: '' @ err), x, ops)
            | Inr file \<Rightarrow>
                let x1 = x\<lparr>x_file := Some file\<rparr> in
                (case sheetList file of
                   [] \<Rightarrow> (Inl ''no sheets found in XLSX file'', x1, ops @ [OpFileClose])
                 | sheetName # others \<Rightarrow>
                     (case sheetRows file sheetName of
                        Inl err \<Rightarrow>
                          (Inl (''failed to create row iterator: '' @ err), x1, ops @ [OpFileClose])
                      | Inr rows \<Rightarrow>
                          (case Rows_Next rows of
                             (False, rows1) \<Rightarrow>
                               (Inl ''empty sheet'', x1\<lparr>x_rows := Some rows1\<rparr>,
                                ops @ [OpRowsClose, OpFileClose])
                           | (True, rows1) \<Rightarrow>
                               (case Rows_Columns rows1 of
                                  Inl err \<Rightarrow>
                                    (Inl (''failed to read header: '' @ err),
                                     x1\<lparr>x_rows := Some rows1\<rparr>, ops @ [OpRowsClose, OpFileClose])
                                | Inr header \<Rightarrow>
                                    (Inr header,
                                     x1\<lparr>x_rows := Some rows1, x_columns := header\<rparr>, ops))))))"

text \<open>
  The padding loop of \<open>NextRow\<close>: one cell per column, the sheet's cell where the row has
  one, \<open>nil\<close> where it is shorter.
\<close>

definition xlsx_pad :: "string list \<Rightarrow> string list \<Rightarrow> ('f, 'o) row" where
  "xlsx_pad columns cols =
     map (\<lambda>i. if i < length cols then VString (cols ! i) else VNil) [0..<length columns]"

text \<open>Calling \<open>NextRow\<close> before a successful \<open>Open\<close> dereferences a nil pointer.\<close>

definition XLSXImporter_NextRow :: "XLSXImporter \<Rightarrow> (error + ('f, 'o) row) \<times> XLSXImporter" where
  "XLSXImporter_NextRow x =
     (case x_rows x of
        None \<Rightarrow> (Inl ''panic: nil pointer dereference'', x)
      | Some rows \<Rightarrow>
          (case Rows_Next rows of
             (False, rows1) \<Rightarrow>
               (case Rows_Error rows1 of
                  Some err \<Rightarrow> (Inl (''row iteration error: '' @ err), x\<lparr>x_rows := Some rows1\<rparr>)
                | None \<Rightarrow> (Inl ''EOF'', x\<lparr>x_rows := Some rows1\<rparr>))
           | (True, rows1) \<Rightarrow>
               (case Rows_Columns rows1 of
                  Inl err \<Rightarrow> (Inl (''failed to read row: '' @ err), x\<lparr>x_rows := Some rows1\<rparr>)
                | Inr cols \<Rightarrow> (Inr (xlsx_pad (x_columns x) cols), x\<lparr>x_rows := Some rows1\<rparr>))))"


section \<open>JSONL importer (go/importer/xlsx.go, second part)\<close>

text \<open>
  \<open>bufio.Scanner\<close> at its interface: the lines still to be delivered, the line \<open>Bytes\<close>
  returns, and the error the scan stops with (\<open>Err\<close>; \<open>None\<close> at a clean end of file).
\<close>

record Scanner =
  sc_lines :: "string list"
  sc_bytes :: string
  sc_err :: "error option"

definition Scan :: "Scanner \<Rightarrow> bool \<times> Scanner" where
  "Scan s =
     (case sc_lines s of
        [] \<Rightarrow> (False, s\<lparr>sc_bytes := []\<rparr>)
      | l # ls \<Rightarrow> (True, s\<lparr>sc_lines := ls, sc_bytes := l\<rparr>))"

text \<open>
  A Go \<open>map[string]interface{}\<close> is its entries, each key once, in the order the keys were
  first inserted; the nil map is \<open>None\<close>. \<open>json.Unmarshal\<close> is a parameter that gives the
  members of the decoded object in the order of the text (\<open>None\<close> for the JSON value
  \<open>null\<close>, which leaves the map nil); \<open>decode_map\<close> stores them one after the other, a
  repeated key overwriting its value. The order in which \<open>range\<close> visits a map is not
  specified by the language and differs from loop to loop: it is the parameter \<open>shuffle\<close>,
  a rearrangement of the entries chosen by the runtime.
\<close>

type_synonym ('f, 'o) gomap = "(string \<times> ('f, 'o) gvalue) list"

type_synonym ('f, 'o) unmarshal = "string \<Rightarrow> error + (string \<times> ('f, 'o) gvalue) list option"

definition decode_map :: "(string \<times> ('f, 'o) gvalue) list \<Rightarrow> ('f, 'o) gomap" where
  "decode_map members = foldl (\<lambda>m (k, v). AList.update k v m) [] members"

definition range_keys ::
  "(('f, 'o) gomap \<Rightarrow> ('f, 'o) gomap) \<Rightarrow> ('f, 'o) gomap \<Rightarrow> string list" where
  "range_keys shuffle m = foldl (\<lambda>columns (key, v). columns @ [key]) [] (shuffle m)"

record ('f, 'o) JSONLImporter =
  j_filePath :: string
  j_scanner :: "Scanner option"
  j_columns :: "string list"
  j_firstRow :: "('f, 'o) gomap option"


text \<open>\<open>osOpen\<close> is \<open>os.Open\<close> with the scanner created on the file.\<close>

definition JSONLImporter_Open ::
  "(string \<Rightarrow> error + Scanner) \<Rightarrow> ('f, 'o) unmarshal \<Rightarrow> (('f, 'o) gomap \<Rightarrow> ('f, 'o) gomap)
     \<Rightarrow> ('f, 'o) JSONLImporter \<Rightarrow> (error + string list) \<times> ('f, 'o) JSONLImporter" where
  "JSONLImporter_Open osOpen unmarshal shuffle j =
     (case osOpen (j_filePath j) of
        Inl err \<Rightarrow> (Inl (''failed to open file: '' @ err), j)
      | Inr scanner \<Rightarrow>
          (case Scan scanner of
             (False, sc1) \<Rightarrow> (Inl ''empty file or read error'', j\<lparr>j_scanner := Some sc1\<rparr>)
           | (True, sc1) \<Rightarrow>
               (case unmarshal (sc_bytes sc1) of
                  Inl err \<Rightarrow>
                    (Inl (''invalid JSON on first line: '' @ err), j\<lparr>j_scanner := Some sc1\<rparr>)
                | Inr decoded \<Rightarrow>
                    let firstObj = map_option decode_map decoded;
                        columns = (case firstObj of None \<Rightarrow> [] | Some m \<Rightarrow> range_keys shuffle m)
                    in (Inr columns,
                        j\<lparr>j_scanner := Some sc1, j_columns := columns, j_firstRow := firstObj\<rparr>))))"



text \<open>
  A workbook with one sheet of a header row and one data row, and a file system in
  which every path is a file of exactly 100 * 1024 * 1024 bytes holding that workbook.
\<close>

definition sample_sheet :: xlsx_Rows where
  "sample_sheet =
     \<lparr>rows_pending = [Inr [''id'', ''name''], Inr [''1'']], rows_current = None, rows_err = None\<rparr>"

definition sample_workbook :: excelize_File where
  "sample_workbook = \<lparr>sheetList = [''Sheet1''], sheetRows = (\<lambda>name. Inr sample_sheet)\<rparr>"

definition stat_100MB :: "string \<Rightarrow> error + int" where
  "stat_100MB p = Inr 104857600"

definition stat_over_100MB :: "string \<Rightarrow> error + int" where
  "stat_over_100MB p = Inr 104857601"

definition open_sample_workbook :: "string \<Rightarrow> error + excelize_File" where
  "open_sample_workbook p = Inr sample_workbook"

text \<open>
  Inputs to run the JSONL importer on: a decoder that knows two lines, a file of those
  two lines, and the importer after its columns were fixed to \<open>id\<close>, \<open>name\<close>.
\<close>

definition sample_unmarshal :: "(unit, unit) unmarshal" where
  "sample_unmarshal line =
     (if line = ''{\"name\":\"Alice\",\"id\":\"1\"}'' then
        Inr (Some [(''name'', VString ''Alice''), (''id'', VString ''1'')])
      else if line = ''{\"id\":\"2\"}'' then Inr (Some [(''id'', VString ''2'')])
      else Inl ''invalid character'')"

definition sample_scanner :: Scanner where
  "sample_scanner =
     \<lparr>sc_lines = [''{\"name\":\"Alice\",\"id\":\"1\"}'', ''{\"id\":\"2\"}''], sc_bytes = [],
      sc_err = None\<rparr>"

definition open_sample_jsonl :: "string \<Rightarrow> error + Scanner" where
  "open_sample_jsonl p = Inr sample_scanner"

definition sample_jsonl_importer :: "(unit, unit) JSONLImporter" where
  "sample_jsonl_importer =
     \<lparr>j_filePath = ''in.jsonl'',
      j_scanner = Some (sample_scanner\<lparr>sc_lines := [''{\"id\":\"2\"}'']\<rparr>),
      j_columns = [''id'', ''name''], j_firstRow = None\<rparr>"


section \<open>Worker pool (worker package)\<close>















section \<open>The CSV format of the standard library (encoding/csv)\<close>

text \<open>
  The exporter writes with \<open>csv.Writer\<close> and the importer reads with \<open>csv.Reader\<close>;
  both are modelled on bytes, as the library works. The reader is modelled with the
  options \<open>CSVImporter.Open\<close> sets: \<open>LazyQuotes\<close> and \<open>TrimLeadingSpace\<close> on, no comment
  character, \<open>FieldsPerRecord\<close> initially 0; the writer with \<open>UseCRLF\<close> off.
\<close>

abbreviation NL :: char where "NL \<equiv> CHR 0x0A"
abbreviation CR :: char where "CR \<equiv> CHR 0x0D"
abbreviation QUOTE :: char where "QUOTE \<equiv> CHR 0x22"

text \<open>
  \<open>unicode.IsSpace\<close> of the first rune of a byte string. \<open>space_runes\<close> lists the
  UTF-8 encodings of the white space characters: tab, line feed, vertical tab, form feed,
  carriage return, space, U+0085, U+00A0, U+1680, U+2000 to U+200A, U+2028, U+2029,
  U+202F, U+205F, U+3000. \<open>space_rune_len s\<close> is the length in bytes of the first rune
  of \<open>s\<close> when it is one of them, and 0 when it is not (or \<open>s\<close> is empty, or its first
  bytes are not valid UTF-8).
\<close>

definition space_runes :: "string list" where
  "space_runes =
     [[CHR 0x09], [CHR 0x0A], [CHR 0x0B], [CHR 0x0C], [CHR 0x0D], [CHR 0x20],
      [CHR 0xC2, CHR 0x85], [CHR 0xC2, CHR 0xA0], [CHR 0xE1, CHR 0x9A, CHR 0x80],
      [CHR 0xE2, CHR 0x80, CHR 0x80], [CHR 0xE2, CHR 0x80, CHR 0x81],
      [CHR 0xE2, CHR 0x80, CHR 0x82], [CHR 0xE2, CHR 0x80, CHR 0x83],
      [CHR 0xE2, CHR 0x80, CHR 0x84], [CHR 0xE2, CHR 0x80, CHR 0x85],
      [CHR 0xE2, CHR 0x80, CHR 0x86], [CHR 0xE2, CHR 0x80, CHR 0x87],
      [CHR 0xE2, CHR 0x80, CHR 0x88], [CHR 0xE2, CHR 0x80, CHR 0x89],
      [CHR 0xE2, CHR 0x80, CHR 0x8A], [CHR 0xE2, CHR 0x80, CHR 0xA8],
      [CHR 0xE2, CHR 0x80, CHR 0xA9], [CHR 0xE2, CHR 0x80, CHR 0xAF],
      [CHR 0xE2, CHR 0x81, CHR 0x9F], [CHR 0xE3, CHR 0x80, CHR 0x80]]"

definition space_rune_len :: "string \<Rightarrow> nat" where
  "space_rune_len s = (case find (\<lambda>p. prefix p s) space_runes of None \<Rightarrow> 0 | Some p \<Rightarrow> length p)"

lemma space_rune_len_0_iff: "space_rune_len s = 0 \<longleftrightarrow> (\<forall>p \<in> set space_runes. \<not> prefix p s)"
proof -
  have ne: "\<forall>p \<in> set space_runes. p \<noteq> []" by (simp add: space_runes_def)
  show ?thesis
  proof (cases "find (\<lambda>p. prefix p s) space_runes")
    case None
    have "space_rune_len s = 0" by (simp add: space_rune_len_def None)
    moreover have "\<forall>p \<in> set space_runes. \<not> prefix p s"
      using None by (simp add: find_None_iff)
    ultimately show ?thesis by simp
  next
    case (Some p)
    then have "p \<in> set space_runes \<and> prefix p s"
      by (metis find_Some_iff nth_mem)
    then show ?thesis using Some ne by (auto simp add: space_rune_len_def)
  qed
qed

lemma space_rune_len_Nil: "space_rune_len [] = 0"
  by (simp add: space_rune_len_0_iff space_runes_def)

subsection \<open>Writer\<close>

definition fieldNeedsQuotes :: "char \<Rightarrow> string \<Rightarrow> bool" where
  "fieldNeedsQuotes comma field =
     (if field = [] then False
      else if field = [CHR 0x5C, CHR ''.''] then True
      else if \<exists>c \<in> set field. c = NL \<or> c = CR \<or> c = QUOTE \<or> c = comma then True
      else space_rune_len field > 0)"

text \<open>
  The body of a quoted field: every quote is doubled, every other byte (carriage return
  and line feed too, \<open>UseCRLF\<close> being off) is written as it is.
\<close>

fun quoted_body :: "string \<Rightarrow> string" where
  "quoted_body [] = []"
| "quoted_body (c # field) = (if c = QUOTE then [QUOTE, QUOTE] else [c]) @ quoted_body field"

definition write_field :: "char \<Rightarrow> string \<Rightarrow> string" where
  "write_field comma field =
     (if \<not> fieldNeedsQuotes comma field then field
      else [QUOTE] @ quoted_body field @ [QUOTE])"

fun write_fields :: "char \<Rightarrow> string list \<Rightarrow> string" where
  "write_fields comma [] = []"
| "write_fields comma [field] = write_field comma field"
| "write_fields comma (field # rest) = write_field comma field @ [comma] @ write_fields comma rest"

text \<open>
  \<open>validDelim\<close> for a one-byte delimiter: not NUL, not a quote, not a line break, and
  an ASCII character.
\<close>

definition validDelim :: "char \<Rightarrow> bool" where
  "validDelim c \<longleftrightarrow> c \<noteq> CHR 0x00 \<and> c \<noteq> QUOTE \<and> c \<noteq> CR \<and> c \<noteq> NL \<and> (of_char c :: nat) < 128"


subsection \<open>Reader\<close>

text \<open>
  The result of a read of the underlying file, as the reader's functions pass it on:
  no error, \<open>io.EOF\<close>, or another error. The reader's state is the bytes not read yet,
  the error the file gives once they are exhausted (\<open>None\<close>: \<open>io.EOF\<close>), the number of
  lines read and \<open>FieldsPerRecord\<close>.
\<close>

datatype io_status = IoOk | IoEOF | IoErr error

record csv_Reader =
  Comma :: char
  src :: string
  src_err :: "error option"
  numLine :: nat
  FieldsPerRecord :: int

definition lengthNL :: "string \<Rightarrow> nat" where
  "lengthNL b = (if b \<noteq> [] \<and> last b = NL then 1 else 0)"

definition normalizeCRLF :: "string \<Rightarrow> string" where
  "normalizeCRLF line =
     (let n = length line
      in if n \<ge> 2 \<and> line ! (n - 2) = CR \<and> line ! (n - 1) = NL then take (n - 2) line @ [NL]
         else line)"

text \<open>
  \<open>readLine\<close>: the next line with its line feed; at the end of the file the rest
  without one, and then no error if there was a rest (a trailing carriage return is
  dropped). A final \<open>\r\n\<close> becomes \<open>\n\<close>.
\<close>

definition readLine :: "csv_Reader \<Rightarrow> (string \<times> io_status) \<times> csv_Reader" where
  "readLine r =
     (let pre = takeWhile (\<lambda>c. c \<noteq> NL) (src r);
          r1 = r\<lparr>numLine := numLine r + 1\<rparr>
      in case dropWhile (\<lambda>c. c \<noteq> NL) (src r) of
           nl # rest \<Rightarrow> ((normalizeCRLF (pre @ [nl]), IoOk), r1\<lparr>src := rest\<rparr>)
         | [] \<Rightarrow>
             let err = (case src_err r of None \<Rightarrow> IoEOF | Some e \<Rightarrow> IoErr e)
             in if length pre > 0 \<and> err = IoEOF then
                  ((normalizeCRLF (if last pre = CR then butlast pre else pre), IoOk),
                   r1\<lparr>src := []\<rparr>)
                else ((normalizeCRLF pre, err), r1\<lparr>src := []\<rparr>))"

lemma normalizeCRLF_length: "length (normalizeCRLF l) \<le> length l"
  by (simp add: normalizeCRLF_def Let_def, arith)

lemma takeWhile_dropWhile_length:
  "length (takeWhile P xs) + length (dropWhile P xs) = length xs"
  by (metis length_append takeWhile_dropWhile_id)


lemma readLine_eof:
  assumes "dropWhile (\<lambda>c. c \<noteq> NL) (src r) = []"
  shows "src (snd (readLine r)) = []"
    and "fst (fst (readLine r)) = normalizeCRLF (takeWhile (\<lambda>c. c \<noteq> NL) (src r)) \<or>
         fst (fst (readLine r)) = normalizeCRLF (butlast (takeWhile (\<lambda>c. c \<noteq> NL) (src r)))"
    and "snd (fst (readLine r)) = IoOk \<Longrightarrow> takeWhile (\<lambda>c. c \<noteq> NL) (src r) \<noteq> []"
  unfolding readLine_def Let_def assms by (simp_all split: option.splits if_splits)

lemma readLine_line:
  assumes "dropWhile (\<lambda>c. c \<noteq> NL) (src r) = nl # rest"
  shows "readLine r = ((normalizeCRLF (takeWhile (\<lambda>c. c \<noteq> NL) (src r) @ [nl]), IoOk),
                       r\<lparr>numLine := numLine r + 1, src := rest\<rparr>)"
  unfolding readLine_def Let_def assms by simp

lemma readLine_length:
  assumes "readLine r = ((line, e), r1)"
  shows "length line + length (src r1) \<le> length (src r)"
proof (cases "dropWhile (\<lambda>c. c \<noteq> NL) (src r)")
  case Nil
  let ?pre = "takeWhile (\<lambda>c. c \<noteq> NL) (src r)"
  have len: "length ?pre = length (src r)"
    using takeWhile_dropWhile_length [of "\<lambda>c. c \<noteq> NL" "src r"] Nil by simp
  have "src r1 = []" and "line = normalizeCRLF ?pre \<or> line = normalizeCRLF (butlast ?pre)"
    using readLine_eof(1,2) [OF Nil] assms by simp_all
  then show ?thesis
    using normalizeCRLF_length [of ?pre] normalizeCRLF_length [of "butlast ?pre"] len by auto
next
  case (Cons nl rest)
  let ?pre = "takeWhile (\<lambda>c. c \<noteq> NL) (src r)"
  have len: "length ?pre + Suc (length rest) = length (src r)"
    using takeWhile_dropWhile_length [of "\<lambda>c. c \<noteq> NL" "src r"] Cons by simp
  have "src r1 = rest" and "line = normalizeCRLF (?pre @ [nl])"
    using assms readLine_line [OF Cons] by auto
  then show ?thesis
    using normalizeCRLF_length [of "?pre @ [nl]"] len by auto
qed

lemma readLine_IoOk_shorter:
  assumes "readLine r = ((line, IoOk), r1)"
  shows "length (src r1) < length (src r)"
proof (cases "dropWhile (\<lambda>c. c \<noteq> NL) (src r)")
  case Nil
  let ?pre = "takeWhile (\<lambda>c. c \<noteq> NL) (src r)"
  have len: "length ?pre = length (src r)"
    using takeWhile_dropWhile_length [of "\<lambda>c. c \<noteq> NL" "src r"] Nil by simp
  have "src r1 = []" and "?pre \<noteq> []"
    using readLine_eof(1,3) [OF Nil] assms by simp_all
  then show ?thesis using len by (cases "src r") auto
next
  case (Cons nl rest)
  have len: "length (takeWhile (\<lambda>c. c \<noteq> NL) (src r)) + Suc (length rest) = length (src r)"
    using takeWhile_dropWhile_length [of "\<lambda>c. c \<noteq> NL" "src r"] Cons by simp
  have "src r1 = rest"
    using assms readLine_line [OF Cons] by auto
  then show ?thesis using len by simp
qed

text \<open>The loop at the start of \<open>readRecord\<close>: read a line, skipping empty lines.\<close>

function readRecordLine :: "csv_Reader \<Rightarrow> (string \<times> io_status) \<times> csv_Reader" where
  "readRecordLine r =
     (case readLine r of
        ((line, errRead), r1) \<Rightarrow>
          if errRead = IoOk \<and> length line = lengthNL line then readRecordLine r1
          else ((line, errRead), r1))"
  by pat_completeness auto
termination
  by (relation "measure (\<lambda>r. length (src r))") (auto dest: readLine_IoOk_shorter [OF sym])

declare readRecordLine.simps [simp del]

text \<open>\<open>TrimLeadingSpace\<close>: the line from its first rune that is not white space.\<close>

function trimLeadingSpace :: "string \<Rightarrow> string" where
  "trimLeadingSpace line =
     (if space_rune_len line = 0 then line else trimLeadingSpace (drop (space_rune_len line) line))"
  by pat_completeness auto
termination
proof (relation "measure length")
  show "wf (measure length)" by simp
next
  fix line :: string
  assume "space_rune_len line \<noteq> 0"
  then have "line \<noteq> []" using space_rune_len_Nil by auto
  with \<open>space_rune_len line \<noteq> 0\<close> show "(drop (space_rune_len line) line, line) \<in> measure length"
    by simp
qed

declare trimLeadingSpace.simps [simp del]

lemma trimLeadingSpace_length: "length (trimLeadingSpace line) \<le> length line"
proof (induction line rule: trimLeadingSpace.induct)
  case (1 line)
  show ?case
  proof (cases "space_rune_len line = 0")
    case True
    then show ?thesis by (simp add: trimLeadingSpace.simps)
  next
    case False
    have "length (trimLeadingSpace (drop (space_rune_len line) line)) \<le> length line"
      using 1 [OF False] by simp
    then show ?thesis using False by (subst trimLeadingSpace.simps) simp
  qed
qed

lemma tl_dropWhile_length:
  "x \<in> set xs \<Longrightarrow> length (tl (dropWhile (\<lambda>c. c \<noteq> x) xs)) < length xs"
  by (induction xs) auto

text \<open>
  The field loop of \<open>readRecord\<close>. \<open>parseField\<close> is at the start of a field, with the
  rest of the line, the error of the last read, the fields found so far; \<open>parseQuoted\<close> is
  inside a quoted field, after its opening quote, with the bytes of the field collected so
  far. A quoted field may run over several lines, which are read as they are needed.
\<close>

function parseField ::
    "csv_Reader \<Rightarrow> string \<Rightarrow> io_status \<Rightarrow> string list \<Rightarrow> (string list \<times> io_status) \<times> csv_Reader"
  and parseQuoted ::
    "csv_Reader \<Rightarrow> string \<Rightarrow> io_status \<Rightarrow> string list \<Rightarrow> string
       \<Rightarrow> (string list \<times> io_status) \<times> csv_Reader" where
  "parseField r line0 errRead flds =
     (let line = trimLeadingSpace line0 in
      if line = [] \<or> hd line \<noteq> QUOTE then
        (if Comma r \<in> set line then
           parseField r (tl (dropWhile (\<lambda>c. c \<noteq> Comma r) line)) errRead
             (flds @ [takeWhile (\<lambda>c. c \<noteq> Comma r) line])
         else ((flds @ [take (length line - lengthNL line) line], errRead), r))
      else parseQuoted r (tl line) errRead flds [])"
| "parseQuoted r line errRead flds cur =
     (if QUOTE \<in> set line then
        let cur1 = cur @ takeWhile (\<lambda>c. c \<noteq> QUOTE) line;
            line1 = tl (dropWhile (\<lambda>c. c \<noteq> QUOTE) line)
        in if line1 \<noteq> [] \<and> hd line1 = QUOTE then
             parseQuoted r (tl line1) errRead flds (cur1 @ [QUOTE])
           else if line1 \<noteq> [] \<and> hd line1 = Comma r then
             parseField r (tl line1) errRead (flds @ [cur1])
           else if lengthNL line1 = length line1 then ((flds @ [cur1], errRead), r)
           else parseQuoted r line1 errRead flds (cur1 @ [QUOTE])
      else if length line > 0 then
        (if errRead \<noteq> IoOk then ((flds, errRead), r)
         else
           case readLine r of
             ((line1, e), r1) \<Rightarrow>
               parseQuoted r1 line1 (if e = IoEOF then IoOk else e) flds (cur @ line))
      else ((flds @ [cur], errRead), r))"
  by pat_completeness auto

termination
proof (relation "measure (\<lambda>a. case a of
          Inl (r, line, errRead, flds) \<Rightarrow> 2 * (length line + length (src r)) + 1
        | Inr (r, line, errRead, flds, cur) \<Rightarrow> 2 * (length line + length (src r)))",
       goal_cases)
  case 1
  show ?case by simp
next
  case (2 r line0 errRead flds line)
  have "length (tl (dropWhile (\<lambda>c. c \<noteq> Comma r) line)) < length line"
    using 2 by (intro tl_dropWhile_length) simp
  moreover have "length line \<le> length line0"
    using 2 trimLeadingSpace_length [of line0] by simp
  ultimately show ?case by simp
next
  case (3 r line0 errRead flds line)
  have "length line \<le> length line0"
    using 3 trimLeadingSpace_length [of line0] by simp
  moreover have "line \<noteq> []" using 3 by simp
  ultimately show ?case by (cases line) auto
next
  case (4 r line errRead flds cur cur1 line1)
  have "length (tl (dropWhile (\<lambda>c. c \<noteq> QUOTE) line)) < length line"
    using 4(1) by (rule tl_dropWhile_length)
  then have "length line1 < length line"
    using 4 by simp
  then show ?case using 4 by (cases line1) auto
next
  case (5 r line errRead flds cur cur1 line1)
  have "length (tl (dropWhile (\<lambda>c. c \<noteq> QUOTE) line)) < length line"
    using 5(1) by (rule tl_dropWhile_length)
  then have "length line1 < length line"
    using 5 by simp
  then show ?case using 5 by (cases line1) auto
next
  case (6 r line errRead flds cur cur1 line1)
  have "length (tl (dropWhile (\<lambda>c. c \<noteq> QUOTE) line)) < length line"
    using 6(1) by (rule tl_dropWhile_length)
  then have "length line1 < length line"
    using 6 by simp
  then show ?case by simp
next
  case (7 r line errRead flds cur x y xa ya)
  then have "readLine r = ((xa, ya), y)" by simp
  from readLine_length [OF this] show ?case using 7 by (cases line) auto
qed
declare parseField.simps [simp del] parseQuoted.simps [simp del]

text \<open>
  \<open>readRecord\<close>, which is what \<open>Read\<close> returns: the record and the error. A record whose number of
  fields differs from that of the first record read gets the error \<open>ErrFieldCount\<close>,
  reported with the line the record starts on.
\<close>

definition readRecord :: "csv_Reader \<Rightarrow> (string list \<times> io_status) \<times> csv_Reader" where
  "readRecord r =
     (if \<not> validDelim (Comma r) then (([], IoErr ''csv: invalid field or comment delimiter''), r)
      else
        case readRecordLine r of
          ((line, errRead), r1) \<Rightarrow>
            if errRead = IoEOF then (([], IoEOF), r1)
            else
              let recLine = numLine r1 in
              case parseField r1 line errRead [] of
                ((dst, err), r2) \<Rightarrow>
                  if FieldsPerRecord r2 > 0 then
                    (if int (length dst) \<noteq> FieldsPerRecord r2 \<and> err = IoOk then
                       ((dst, IoErr (''record on line '' @ nat_dec recLine
                                     @ '': wrong number of fields'')), r2)
                     else ((dst, err), r2))
                  else if FieldsPerRecord r2 = 0 then
                    ((dst, err), r2\<lparr>FieldsPerRecord := int (length dst)\<rparr>)
                  else ((dst, err), r2))"


section \<open>CSV importer (importer package)\<close>






section \<open>Exporters (exporter package)\<close>




























section \<open>Export orchestrator (exporter package)\<close>














subsection \<open>What a read consumes\<close>









section \<open>Import orchestrator (importer package)\<close>





























section \<open>Lines of a byte string\<close>


definition first_line :: "string \<Rightarrow> string" where
  "first_line s = takeWhile (\<lambda>c. c \<noteq> NL) s @ [NL]"

definition after_line :: "string \<Rightarrow> string" where
  "after_line s = tl (dropWhile (\<lambda>c. c \<noteq> NL) s)"










chapter \<open>Properties\<close>

section \<open>Batch-size resolution\<close>









section \<open>Empty batches\<close>

text \<open>
  C10. \<open>BatchInsert\<close> with an empty rows slice returns \<open>nil\<close> and leaves the database as
  it was, no statement sent, for the PostgreSQL and the MySQL connector, every table name
  and every column set.
\<close>

theorem BatchInsert_empty_noop:
  "PostgresConnector_BatchInsert db table columns [] = (None, db) \<and>
   MySQLConnector_BatchInsert db table columns [] = (None, db)"
  by (simp add: PostgresConnector_BatchInsert_def MySQLConnector_BatchInsert_def)

section \<open>Format auto-detection\<close>

lemma prefix4_nth:
  "prefix [a, b, c, d] xs \<longleftrightarrow> 4 \<le> length xs \<and> xs ! 0 = a \<and> xs ! 1 = b \<and> xs ! 2 = c \<and> xs ! 3 = d"
proof
  assume "prefix [a, b, c, d] xs"
  then obtain ys where "xs = [a, b, c, d] @ ys" by (auto simp: prefix_def)
  then show "4 \<le> length xs \<and> xs ! 0 = a \<and> xs ! 1 = b \<and> xs ! 2 = c \<and> xs ! 3 = d"
    by simp
next
  assume h: "4 \<le> length xs \<and> xs ! 0 = a \<and> xs ! 1 = b \<and> xs ! 2 = c \<and> xs ! 3 = d"
  then obtain x0 x1 x2 x3 ys where xs: "xs = x0 # x1 # x2 # x3 # ys"
    by (cases xs; cases "tl xs"; cases "tl (tl xs)"; cases "tl (tl (tl xs))") auto
  with h show "prefix [a, b, c, d] xs" by simp
qed

lemma detectFormat_sniff:
  assumes ext: "ToLower (Ext p) \<notin> set known_extensions"
    and fsp: "fs p = Inr (Inr content)" and nonempty: "content \<noteq> []"
  shows "detectFormat fs p =
     (if prefix [CHR 0x50, CHR 0x4B, CHR 0x03, CHR 0x04] content then Inr ''xlsx''
      else if 8 \<le> length content \<and> prefix [CHR 0xD0, CHR 0xCF, CHR 0x11, CHR 0xE0] content then
        Inl ''XLS format detected (legacy Excel format). Please convert to XLSX or CSV''
      else Inr ''csv'')"
proof -
  have len: "length (take 512 content) = min (length content) 512" by simp
  have n4: "4 \<le> length (take 512 content) \<longleftrightarrow> 4 \<le> length content" by auto
  have n8: "8 \<le> length (take 512 content) \<longleftrightarrow> 8 \<le> length content" by auto
  have nth: "take 512 content ! 0 = content ! 0" "take 512 content ! 1 = content ! 1"
    "take 512 content ! 2 = content ! 2" "take 512 content ! 3 = content ! 3"
    by simp_all
  have unfold: "detectFormat fs p =
     (if 4 \<le> length content \<and> content ! 0 = CHR 0x50 \<and> content ! 1 = CHR 0x4B
          \<and> content ! 2 = CHR 0x03 \<and> content ! 3 = CHR 0x04 then Inr ''xlsx''
      else if 8 \<le> length content \<and> content ! 0 = CHR 0xD0 \<and> content ! 1 = CHR 0xCF
          \<and> content ! 2 = CHR 0x11 \<and> content ! 3 = CHR 0xE0 then
        Inl ''XLS format detected (legacy Excel format). Please convert to XLSX or CSV''
      else Inr ''csv'')"
    using ext nonempty unfolding detectFormat_def Let_def known_extensions_def fsp n4 n8 nth
    by (auto simp add: min_def)
  show ?thesis unfolding unfold prefix4_nth by auto
qed

lemma detectFormat_unreadable:
  assumes ext: "ToLower (Ext p) \<notin> set known_extensions"
    and fsp: "fs p = Inl e \<or> fs p = Inr (Inl e) \<or> fs p = Inr (Inr [])"
  shows "\<exists>msg. detectFormat fs p = Inl msg"
  using ext fsp unfolding detectFormat_def Let_def known_extensions_def
  by auto

text \<open>
  C3 (as the code has it). \<open>detectFormat\<close> decides by the lower-cased extension first,
  whatever the file holds: \<open>.csv\<close>, \<open>.tsv\<close>, \<open>.jsonl\<close>/\<open>.ndjson\<close> and \<open>.xlsx\<close> give their
  format, \<open>.xls\<close> and \<open>.json\<close> are rejected with a message naming the legacy format and
  pointing to JSONL. With any other extension the file is opened and up to 512 bytes are
  read: a file that cannot be opened, cannot be read or is empty is an error; otherwise
  the ZIP signature \<open>50 4B 03 04\<close> gives xlsx, at least 8 bytes starting with
  \<open>D0 CF 11 E0\<close> are rejected as legacy Excel, and anything else is csv.
\<close>

theorem detectFormat_order:
  "(ToLower (Ext p) = ''.csv'' \<longrightarrow> detectFormat fs p = Inr ''csv'') \<and>
   (ToLower (Ext p) = ''.tsv'' \<longrightarrow> detectFormat fs p = Inr ''tsv'') \<and>
   (ToLower (Ext p) = ''.jsonl'' \<or> ToLower (Ext p) = ''.ndjson'' \<longrightarrow>
      detectFormat fs p = Inr ''jsonl'') \<and>
   (ToLower (Ext p) = ''.xlsx'' \<longrightarrow> detectFormat fs p = Inr ''xlsx'') \<and>
   (ToLower (Ext p) = ''.xls'' \<longrightarrow>
      detectFormat fs p =
        Inl ''XLS format is not supported (legacy Excel format). Please convert to XLSX or CSV'') \<and>
   (ToLower (Ext p) = ''.json'' \<longrightarrow>
      detectFormat fs p =
        Inl ''JSON arrays are not supported. Use JSONL (newline-delimited JSON) instead'') \<and>
   (ToLower (Ext p) \<notin> set known_extensions \<longrightarrow>
      (\<forall>e. fs p = Inl e \<or> fs p = Inr (Inl e) \<or> fs p = Inr (Inr []) \<longrightarrow>
           (\<exists>msg. detectFormat fs p = Inl msg)) \<and>
      (\<forall>content. fs p = Inr (Inr content) \<and> content \<noteq> [] \<longrightarrow>
         detectFormat fs p =
           (if prefix [CHR 0x50, CHR 0x4B, CHR 0x03, CHR 0x04] content then Inr ''xlsx''
            else if 8 \<le> length content \<and> prefix [CHR 0xD0, CHR 0xCF, CHR 0x11, CHR 0xE0] content
            then Inl ''XLS format detected (legacy Excel format). Please convert to XLSX or CSV''
            else Inr ''csv'')))"
proof -
  have known: "ToLower (Ext p) = ''.csv'' \<longrightarrow> detectFormat fs p = Inr ''csv''"
    "ToLower (Ext p) = ''.tsv'' \<longrightarrow> detectFormat fs p = Inr ''tsv''"
    "ToLower (Ext p) = ''.jsonl'' \<or> ToLower (Ext p) = ''.ndjson'' \<longrightarrow>
       detectFormat fs p = Inr ''jsonl''"
    "ToLower (Ext p) = ''.xlsx'' \<longrightarrow> detectFormat fs p = Inr ''xlsx''"
    "ToLower (Ext p) = ''.xls'' \<longrightarrow> detectFormat fs p =
        Inl ''XLS format is not supported (legacy Excel format). Please convert to XLSX or CSV''"
    "ToLower (Ext p) = ''.json'' \<longrightarrow> detectFormat fs p =
        Inl ''JSON arrays are not supported. Use JSONL (newline-delimited JSON) instead''"
    by (auto simp add: detectFormat_def Let_def)
  have sniff: "ToLower (Ext p) \<notin> set known_extensions \<longrightarrow>
      (\<forall>e. fs p = Inl e \<or> fs p = Inr (Inl e) \<or> fs p = Inr (Inr []) \<longrightarrow>
           (\<exists>msg. detectFormat fs p = Inl msg)) \<and>
      (\<forall>content. fs p = Inr (Inr content) \<and> content \<noteq> [] \<longrightarrow>
         detectFormat fs p =
           (if prefix [CHR 0x50, CHR 0x4B, CHR 0x03, CHR 0x04] content then Inr ''xlsx''
            else if 8 \<le> length content \<and> prefix [CHR 0xD0, CHR 0xCF, CHR 0x11, CHR 0xE0] content
            then Inl ''XLS format detected (legacy Excel format). Please convert to XLSX or CSV''
            else Inr ''csv''))"
    using detectFormat_unreadable [of p fs] detectFormat_sniff [of p fs] by blast
  from known sniff show ?thesis by blast
qed

theorem detectFormat_order_witness:
  "detectFormat empty_file_fs ''in/data.CSV'' = Inr ''csv'' \<and>
   detectFormat empty_file_fs ''in/data.ndjson'' = Inr ''jsonl'' \<and>
   detectFormat empty_file_fs ''book.xls'' =
     Inl ''XLS format is not supported (legacy Excel format). Please convert to XLSX or CSV'' \<and>
   (\<exists>msg. detectFormat empty_file_fs ''in.d/data'' = Inl msg) \<and>
   detectFormat zip_file_fs ''in.d/data'' = Inr ''xlsx''"
proof -
  have e1: "ToLower (Ext ''in/data.CSV'') = ''.csv''"
    and e2: "ToLower (Ext ''in/data.ndjson'') = ''.ndjson''"
    and e3: "ToLower (Ext ''book.xls'') = ''.xls''"
    and e4: "ToLower (Ext ''in.d/data'') \<notin> set known_extensions"
    by (simp_all add: Ext_def ToLower_def lower_char_def known_extensions_def)
  have z: "zip_file_fs ''in.d/data'' = Inr (Inr [CHR 0x50, CHR 0x4B, CHR 0x03, CHR 0x04, CHR 0x14])"
    by (simp add: zip_file_fs_def)
  show ?thesis
    using detectFormat_order [of "''in/data.CSV''" empty_file_fs]
      detectFormat_order [of "''in/data.ndjson''" empty_file_fs]
      detectFormat_order [of "''book.xls''" empty_file_fs]
      detectFormat_order [of "''in.d/data''" empty_file_fs]
      detectFormat_order [of "''in.d/data''" zip_file_fs]
      e1 e2 e3 e4 z
    by (simp add: empty_file_fs_def)
qed

text \<open>
  The claim as the specification words it fails on an empty file without a known
  extension: it holds neither signature, and the result is an error, not csv.
\<close>

theorem detectFormat_empty_file_counterexample:
  "detectFormat empty_file_fs ''in.d/data'' = Inl ''cannot read file to detect format''"
  by (simp add: detectFormat_def empty_file_fs_def Ext_def ToLower_def lower_char_def)

section \<open>XLSX size ceiling\<close>

lemma int_dec_MaxXLSXSize: "int_dec MaxXLSXSize = ''104857600''"
  by (simp add: MaxXLSXSize_def int_dec_def nat_dec.simps digit_char_def)

text \<open>
  C5 (as the code has it). When the file is larger than 100 * 1024 * 1024 bytes, \<open>Open\<close>
  of the XLSX importer returns the error that tells to convert to CSV, whatever the
  workbook holds: the only file-system operation is the \<open>Stat\<close>, the archive is not
  opened, the importer is left as created, and it yields no row.
\<close>

theorem XLSXImporter_Open_size_ceiling:
  assumes "stat filePath = Inr sz" and "sz > MaxXLSXSize"
  shows "XLSXImporter_Open stat openFile (NewXLSXImporter filePath) =
           (Inl (''XLSX file too large: '' @ int_dec sz
                 @ '' bytes (max 104857600 bytes). Please convert to CSV for large files''),
            NewXLSXImporter filePath, [OpStat filePath]) \<and>
         (\<exists>err. fst (XLSXImporter_NextRow (NewXLSXImporter filePath)
                   :: (error + ('f, 'o) row) \<times> XLSXImporter) = Inl err)"
proof -
  have path: "x_filePath (NewXLSXImporter filePath) = filePath"
    and rows: "x_rows (NewXLSXImporter filePath) = None"
    by (simp_all add: NewXLSXImporter_def)
  have "XLSXImporter_Open stat openFile (NewXLSXImporter filePath) =
           (Inl (''XLSX file too large: '' @ int_dec sz @ '' bytes (max '' @ int_dec MaxXLSXSize
                 @ '' bytes). Please convert to CSV for large files''),
            NewXLSXImporter filePath, [OpStat filePath])"
    using assms by (simp add: XLSXImporter_Open_def path)
  moreover have "\<exists>err. fst (XLSXImporter_NextRow (NewXLSXImporter filePath)
                   :: (error + ('f, 'o) row) \<times> XLSXImporter) = Inl err"
    by (simp add: XLSXImporter_NextRow_def rows)
  ultimately show ?thesis by (simp add: int_dec_MaxXLSXSize)
qed

theorem XLSXImporter_Open_size_ceiling_witness:
  "XLSXImporter_Open stat_over_100MB open_sample_workbook (NewXLSXImporter ''big.xlsx'') =
     (Inl ''XLSX file too large: 104857601 bytes (max 104857600 bytes). Please convert to CSV for large files'',
      NewXLSXImporter ''big.xlsx'', [OpStat ''big.xlsx''])"
proof -
  have s: "stat_over_100MB ''big.xlsx'' = Inr 104857601" by (simp add: stat_over_100MB_def)
  have g: "(104857601::int) > MaxXLSXSize" by (simp add: MaxXLSXSize_def)
  have d: "int_dec 104857601 = ''104857601''"
    by (simp add: int_dec_def nat_dec.simps digit_char_def)
  show ?thesis
    using conjunct1 [OF XLSXImporter_Open_size_ceiling
        [where stat = stat_over_100MB and filePath = "''big.xlsx''" and sz = 104857601
           and openFile = open_sample_workbook, OF s g]]
    by (simp add: d)
qed

text \<open>
  The claim as the specification words it fails at the threshold itself: a file of
  exactly 100 * 1024 * 1024 bytes passes the size check, the archive is opened and the
  header is returned.
\<close>

theorem XLSXImporter_Open_at_threshold_counterexample:
  "fst (XLSXImporter_Open stat_100MB open_sample_workbook (NewXLSXImporter ''big.xlsx'')) =
     Inr [''id'', ''name''] \<and>
   snd (snd (XLSXImporter_Open stat_100MB open_sample_workbook (NewXLSXImporter ''big.xlsx''))) =
     [OpStat ''big.xlsx'', OpOpenFile ''big.xlsx'']"
  by (simp add: XLSXImporter_Open_def stat_100MB_def open_sample_workbook_def
      sample_workbook_def sample_sheet_def NewXLSXImporter_def MaxXLSXSize_def
      Rows_Next_def Rows_Columns_def)

section \<open>Column padding\<close>










section \<open>JSONL column discovery\<close>

lemma range_keys_eq: "range_keys shuffle m = map fst (shuffle m)"
proof -
  have h: "foldl (\<lambda>columns (key, v). columns @ [key]) acc xs = acc @ map fst xs"
    for acc and xs :: "(string \<times> 'c) list"
    by (induction xs arbitrary: acc) (auto split: prod.splits)
  show ?thesis unfolding range_keys_def h by simp
qed

lemma decode_map_foldl:
  "distinct (map fst acc) \<Longrightarrow>
   distinct (map fst (foldl (\<lambda>m (k, v). AList.update k v m) acc members)) \<and>
   fst ` set (foldl (\<lambda>m (k, v). AList.update k v m) acc members) = fst ` set acc \<union> fst ` set members"
proof (induction members arbitrary: acc)
  case Nil
  then show ?case by simp
next
  case (Cons kv members)
  obtain k v where kv: "kv = (k, v)" by (cases kv)
  have d: "distinct (map fst (AList.update k v acc))"
    using Cons.prems by (simp add: distinct_update)
  have s: "fst ` set (AList.update k v acc) = insert k (fst ` set acc)"
    using dom_update [of k v acc] by (simp add: insert_absorb)
  show ?case using Cons.IH [OF d] by (auto simp add: kv s)
qed

lemma decode_map_keys:
  "distinct (map fst (decode_map members))"
  "fst ` set (decode_map members) = fst ` set members"
  using decode_map_foldl [of "[]" members] by (simp_all add: decode_map_def)

text \<open>
  C4 (as the code has it). When the first line of the source decodes to a JSON object,
  \<open>Open\<close> of the JSONL importer returns as columns the keys of that object, each key
  exactly once, in the order in which the \<open>range\<close> loop visits the map. That order is any
  rearrangement of the entries: the language does not fix it.
\<close>

theorem JSONLImporter_Open_columns:
  assumes "osOpen (j_filePath j) = Inr sc" and "Scan sc = (True, sc1)"
    and "unmarshal (sc_bytes sc1) = Inr (Some members)"
    and "\<forall>m. mset (shuffle m) = mset m"
  shows "\<exists>columns. fst (JSONLImporter_Open osOpen unmarshal shuffle j) = Inr columns \<and>
           set columns = fst ` set members \<and> distinct columns \<and>
           columns = map fst (shuffle (decode_map members))"
proof -
  let ?m = "decode_map members"
  have res: "fst (JSONLImporter_Open osOpen unmarshal shuffle j) = Inr (map fst (shuffle ?m))"
    using assms(1-3) by (simp add: JSONLImporter_Open_def Let_def range_keys_eq)
  have ms: "mset (map fst (shuffle ?m)) = mset (map fst ?m)"
    using assms(4) by (metis mset_map)
  have "set (map fst (shuffle ?m)) = set (map fst ?m)"
    using ms by (rule mset_eq_setD)
  then have keys: "set (map fst (shuffle ?m)) = fst ` set members"
    using decode_map_keys(2) [of members] by simp
  have dist: "distinct (map fst (shuffle ?m))"
    using ms decode_map_keys(1) [of members] by (metis mset_eq_imp_distinct_iff)
  show ?thesis using res keys dist by simp
qed

theorem JSONLImporter_Open_columns_witness:
  "fst (JSONLImporter_Open open_sample_jsonl sample_unmarshal rev sample_jsonl_importer) =
     Inr [''id'', ''name'']"
proof -
  let ?sc1 = "sample_scanner\<lparr>sc_lines := [''{\"id\":\"2\"}''],
                sc_bytes := ''{\"name\":\"Alice\",\"id\":\"1\"}''\<rparr>"
  have a: "open_sample_jsonl (j_filePath sample_jsonl_importer) = Inr sample_scanner"
    by (simp add: open_sample_jsonl_def)
  have b: "Scan sample_scanner = (True, ?sc1)"
    by (simp add: Scan_def sample_scanner_def)
  have c: "sample_unmarshal (sc_bytes ?sc1) =
      Inr (Some [(''name'', VString ''Alice''), (''id'', VString ''1'')])"
    by (simp add: sample_unmarshal_def)
  have d: "\<forall>m :: (unit, unit) gomap. mset (rev m) = mset m" by simp
  have e: "decode_map [(''name'', VString ''Alice''), (''id'', VString ''1'' :: (unit, unit) gvalue)] =
      [(''name'', VString ''Alice''), (''id'', VString ''1'')]"
    by (simp add: decode_map_def)
  from JSONLImporter_Open_columns
    [where osOpen = open_sample_jsonl and j = sample_jsonl_importer and sc = sample_scanner
       and ?sc1.0 = ?sc1 and unmarshal = sample_unmarshal and shuffle = rev
       and members = "[(''name'', VString ''Alice''), (''id'', VString ''1'')]"] a b c d
  show ?thesis by (simp add: e)
qed

text \<open>
  The claim as the specification words it fails: on the line
  \<open>{"name":"Alice","id":"1"}\<close> an iteration that visits the entries in reverse gives
  the columns \<open>id\<close>, \<open>name\<close>, which is not the order of the keys in the object, and an
  iteration that visits them as stored gives \<open>name\<close>, \<open>id\<close>: two opens of one source with
  two column sequences.
\<close>

theorem JSONLImporter_Open_order_counterexample:
  "fst (JSONLImporter_Open open_sample_jsonl sample_unmarshal rev sample_jsonl_importer) =
     Inr [''id'', ''name''] \<and>
   fst (JSONLImporter_Open open_sample_jsonl sample_unmarshal id sample_jsonl_importer) =
     Inr [''name'', ''id'']"
  by (simp add: JSONLImporter_Open_def open_sample_jsonl_def Scan_def sample_scanner_def
      sample_unmarshal_def decode_map_def range_keys_def Let_def)

section \<open>Batch completeness\<close>










section \<open>Zero-row export\<close>






section \<open>End-of-stream sentinel\<close>












section \<open>Round trip through the CSV format\<close>

lemma first_line_Cons [simp]:
  "first_line (c # s) = (if c = NL then [NL] else c # first_line s)"
  by (simp add: first_line_def)

lemma after_line_Cons [simp]:
  "after_line (c # s) = (if c = NL then s else after_line s)"
  by (simp add: after_line_def)

lemma first_line_not_Nil [simp]: "first_line s \<noteq> []"
  by (simp add: first_line_def)

lemma first_line_append: "NL \<in> set a \<Longrightarrow> first_line (a @ b) = first_line a"
  by (induction a) auto

lemma after_line_append: "NL \<in> set a \<Longrightarrow> after_line (a @ b) = after_line a @ b"
  by (induction a) auto


















lemma space_rune_len_QUOTE [simp]: "space_rune_len (QUOTE # s) = 0"
  by (simp add: space_rune_len_0_iff space_runes_def)














lemma write_field_cases:
  obtains (empty) "f = []" "write_field comma f = []"
  | (quoted) "fieldNeedsQuotes comma f" "write_field comma f = QUOTE # quoted_body f @ [QUOTE]"
      "f \<noteq> []"
  | (plain) "f \<noteq> []" "\<not> fieldNeedsQuotes comma f" "write_field comma f = f"
  by (cases "f = []"; cases "fieldNeedsQuotes comma f")
    (auto simp add: write_field_def fieldNeedsQuotes_def)




lemma quoted_body_Nil_iff [simp]: "quoted_body f = [] \<longleftrightarrow> f = []"
  by (cases f) auto






lemma write_fields_Nil_iff: "write_fields comma rcd = [] \<longleftrightarrow> rcd = [] \<or> rcd = [[]]"
proof (induction comma rcd rule: write_fields.induct)
  case (2 comma f)
  show ?case by (cases rule: write_field_cases [where f = f and comma = comma]) simp_all
qed simp_all










text \<open>
  The two conditions on the texts are needed: a carriage return before a line feed is
  dropped inside a quoted field, and with the tab as delimiter an empty field before
  another field is lost.
\<close>

lemma readRecord_drops_CR:
  "fst (readRecord \<lparr>Comma = CHR '','',
          src = write_fields (CHR '','') [[CHR ''a'', CR, NL, CHR ''b'']] @ [NL],
          src_err = None, numLine = 1, FieldsPerRecord = 1\<rparr>) =
     ([[CHR ''a'', NL, CHR ''b'']], IoOk)"
  by (simp add: readRecord_def validDelim_def readRecordLine.simps readLine_def Let_def
      lengthNL_def normalizeCRLF_def parseField.simps parseQuoted.simps
      trimLeadingSpace.simps space_rune_len_def space_runes_def write_field_def
      fieldNeedsQuotes_def)

lemma readRecord_tab_empty_field:
  "fst (readRecord \<lparr>Comma = CHR 0x09,
          src = write_fields (CHR 0x09) [''a'', [], ''b''] @ [NL],
          src_err = None, numLine = 1, FieldsPerRecord = 0\<rparr>) =
     ([''a'', ''b''], IoOk)"
  by (simp add: readRecord_def validDelim_def readRecordLine.simps readLine_def Let_def
      lengthNL_def normalizeCRLF_def parseField.simps parseQuoted.simps
      trimLeadingSpace.simps space_rune_len_def space_runes_def write_field_def
      fieldNeedsQuotes_def)






end
